theory Spec2Isabelle
  imports
    Main
    "HOL-Library.Finite_Map"
    "HOL-Library.List_Lexorder"
    "HOL-Library.Char_ord"
    "HOL-Library.Product_Lexorder"
    "HOL-Library.Word"
begin

section \<open>Data model\<close>

text \<open>
  The packages \<^verbatim>\<open>cs\<close>, \<^verbatim>\<open>types\<close> and \<^verbatim>\<open>store\<close> are used by the stores but their
  sources are not part of the files at hand. Their data types are declared here with the
  fields that the stores and the specification (section 3) name.

  A \<^verbatim>\<open>*types.Bytes32\<close> is used by the store only through \<^verbatim>\<open>String()\<close>, its lower-case
  hexadecimal rendering, so a hash is represented by that rendering.
\<close>

datatype Bytes32 = Bytes32 (String32: string)

text \<open>Error kinds of section 7 of the specification; each carries its message.\<close>

datatype error =
    ValidationError string
  | Conflict string
  | BackendError string
  | Internal string

fun Error :: "error \<Rightarrow> string" where
  "Error (ValidationError m) = m"
| "Error (Conflict m) = m"
| "Error (BackendError m) = m"
| "Error (Internal m) = m"

text \<open>
  A Go slice is either \<^verbatim>\<open>nil\<close> or a (possibly empty) sequence; both have length zero
  when empty, but they are told apart by a comparison with \<^verbatim>\<open>nil\<close>.
\<close>

datatype 'a slice = nil | Slice "'a list"

fun elems :: "'a slice \<Rightarrow> 'a list" where
  "elems nil = []"
| "elems (Slice xs) = xs"

definition len :: "'a slice \<Rightarrow> nat" where
  "len s = length (elems s)"

text \<open>\<^verbatim>\<open>append(s, x)\<close>: the result is never \<^verbatim>\<open>nil\<close>.\<close>

definition append_slice :: "'a slice \<Rightarrow> 'a \<Rightarrow> 'a slice" where
  "append_slice s x = Slice (elems s @ [x])"

text \<open>
  \<^verbatim>\<open>cs.Link\<close>: an opaque state and the meta data of section 3. The priority is a number
  of which only the order is used; it is an integer here.
\<close>

record LinkMeta =
  mapId :: string
  process :: string
  prevLinkHash :: "string option"
  tags :: "string list"
  priority :: "int option"

record Link =
  State :: string
  Meta :: LinkMeta

definition GetMapID :: "Link \<Rightarrow> string" where
  "GetMapID link = mapId (Link.Meta link)"

text \<open>\<^verbatim>\<open>cs.Evidence\<close>, tagged by its backend and provider, and \<^verbatim>\<open>cs.Evidences\<close>.\<close>

record Evidence =
  Backend :: string
  Provider :: string
  Proof :: string

type_synonym Evidences = "Evidence slice"

text \<open>\<^verbatim>\<open>cs.Segment\<close> with its \<^verbatim>\<open>cs.SegmentMeta\<close>.\<close>

record SegmentMeta =
  Evidences :: Evidences
  LinkHash :: string

record Segment =
  Link :: Link
  Meta :: SegmentMeta

text \<open>
  \<^verbatim>\<open>store.Event\<close>: the two kinds of section 4.6, as built by \<^verbatim>\<open>store.NewSavedLinks\<close>,
  \<^verbatim>\<open>store.NewSavedEvidences\<close> and \<^verbatim>\<open>AddSavedEvidence\<close>.
\<close>

datatype Event =
    SavedLinks "Link list"
  | SavedEvidences "(string, Evidence) fmap"

definition NewSavedLinks :: "Link \<Rightarrow> Event" where
  "NewSavedLinks link = SavedLinks [link]"

definition NewSavedEvidences :: Event where
  "NewSavedEvidences = SavedEvidences fmempty"

fun AddSavedEvidence :: "Event \<Rightarrow> Bytes32 \<Rightarrow> Evidence \<Rightarrow> Event" where
  "AddSavedEvidence (SavedEvidences m) linkHash evidence =
     SavedEvidences (fmupd (String32 linkHash) evidence m)"
| "AddSavedEvidence e linkHash evidence = e"

section \<open>The in-memory store (package dummystore)\<close>

record Config =
  Version :: string
  Commit :: string

text \<open>
  An event channel is identified by a number. What a store sends is returned by each
  operation as the list of (channel, event) pairs in the order of the sends.
\<close>

type_synonym chan = nat

type_synonym linkMap = "(string, Link) fmap"
type_synonym evidenceMap = "(string, Evidences) fmap"
type_synonym hashSet = "string fset"
type_synonym hashSetMap = "(string, hashSet) fmap"
type_synonym valueMap = "(string, 8 word list) fmap"

record DummyStore =
  config :: Config
  eventChans :: "chan list"
  links :: linkMap
  evidences :: evidenceMap
  values' :: valueMap
  maps' :: hashSetMap

definition New :: "Config \<Rightarrow> DummyStore" where
  "New cfg = \<lparr> config = cfg, eventChans = [], links = fmempty, evidences = fmempty,
               values' = fmempty, maps' = fmempty \<rparr>"

definition AddStoreEventChannel :: "DummyStore \<Rightarrow> chan \<Rightarrow> DummyStore" where
  "AddStoreEventChannel a eventChan = a\<lparr> eventChans := eventChans a @ [eventChan] \<rparr>"

text \<open>The loop \<^verbatim>\<open>for _, c := range a.eventChans { c <- event }\<close>.\<close>

fun publish :: "chan list \<Rightarrow> Event \<Rightarrow> (chan \<times> Event) list" where
  "publish [] event = []"
| "publish (c # cs) event = (c, event) # publish cs event"

subsection \<open>Store writer\<close>

text \<open>
  \<^verbatim>\<open>link.Hash()\<close> belongs to package \<^verbatim>\<open>cs\<close>; it is the parameter \<open>Hash\<close>, which either
  fails or gives the hash of the link.
\<close>

type_synonym hasher = "Link \<Rightarrow> error + Bytes32"

definition createLink ::
  "hasher \<Rightarrow> DummyStore \<Rightarrow> Link \<Rightarrow> (error + Bytes32) \<times> DummyStore \<times> (chan \<times> Event) list"
where
  "createLink Hash a link =
     (case Hash link of
        Inl err \<Rightarrow> (Inl err, a, [])
      | Inr linkHash \<Rightarrow>
          let linkHashStr = String32 linkHash;
              a1 = a\<lparr> links := fmupd linkHashStr link (links a) \<rparr>;
              mapID = GetMapID link;
              a2 = (if mapID |\<notin>| fmdom (maps' a1)
                    then a1\<lparr> maps' := fmupd mapID {||} (maps' a1) \<rparr> else a1);
              a3 = a2\<lparr> maps' := fmupd mapID
                      (finsert linkHashStr (case fmlookup (maps' a2) mapID of
                                              Some s \<Rightarrow> s | None \<Rightarrow> {||}))
                      (maps' a2) \<rparr>;
              linkEvent = NewSavedLinks link
          in (Inr linkHash, a3, publish (eventChans a3) linkEvent))"

definition CreateLink ::
  "hasher \<Rightarrow> DummyStore \<Rightarrow> Link \<Rightarrow> (error + Bytes32) \<times> DummyStore \<times> (chan \<times> Event) list"
where
  "CreateLink Hash a link = createLink Hash a link"

text \<open>
  Modelled from the spec: \<^verbatim>\<open>cs.Evidences.AddEvidence\<close> is not among the sources. By
  sections 3 and 4.1, evidences are an ordered collection with at most one evidence per
  (backend, provider) pair; adding a second one for the same pair fails with a conflict
  and the collection stays as it was, otherwise the evidence is appended.
\<close>

definition samePair :: "Evidence \<Rightarrow> Evidence \<Rightarrow> bool" where
  "samePair e e' \<longleftrightarrow> Backend e = Backend e' \<and> Provider e = Provider e'"

definition Evidences_AddEvidence :: "Evidences \<Rightarrow> Evidence \<Rightarrow> error + Evidences" where
  "Evidences_AddEvidence e evidence =
     (if list_ex (samePair evidence) (elems e)
      then Inl (Conflict (''evidence already exists for '' @ Backend evidence @ ''/''
                          @ Provider evidence))
      else Inr (append_slice e evidence))"

text \<open>
  In the source \<^verbatim>\<open>currentEvidences\<close> is a pointer and \<^verbatim>\<open>AddEvidence\<close> updates the
  collection through it; here the updated collection is a value, stored on success.
\<close>

definition addEvidence :: "DummyStore \<Rightarrow> string \<Rightarrow> Evidence \<Rightarrow> error option \<times> DummyStore" where
  "addEvidence a linkHash evidence =
     (let currentEvidences = (case fmlookup (evidences a) linkHash of
                                None \<Rightarrow> Slice []
                              | Some es \<Rightarrow> es)
      in case Evidences_AddEvidence currentEvidences evidence of
           Inl err \<Rightarrow> (Some err, a)
         | Inr es \<Rightarrow> (None, a\<lparr> evidences := fmupd linkHash es (evidences a) \<rparr>))"

definition AddEvidence ::
  "DummyStore \<Rightarrow> Bytes32 \<Rightarrow> Evidence \<Rightarrow> error option \<times> DummyStore \<times> (chan \<times> Event) list"
where
  "AddEvidence a linkHash evidence =
     (case addEvidence a (String32 linkHash) evidence of
        (Some err, a') \<Rightarrow> (Some err, a', [])
      | (None, a') \<Rightarrow>
          let evidenceEvent = AddSavedEvidence NewSavedEvidences linkHash evidence
          in (None, a', publish (eventChans a') evidenceEvent))"

subsection \<open>Store reader\<close>

text \<open>A result \<^verbatim>\<open>(nil, nil)\<close> is \<open>Inr None\<close>; a non-nil error is \<open>Inl\<close>.\<close>

definition getSegment :: "DummyStore \<Rightarrow> string \<Rightarrow> error + Segment option" where
  "getSegment a linkHash =
     (case fmlookup (links a) linkHash of
        None \<Rightarrow> Inr None
      | Some link \<Rightarrow>
          let segment = \<lparr> Link = link,
                          Meta = \<lparr> Evidences = Slice [], LinkHash = linkHash \<rparr> \<rparr>
          in (case fmlookup (evidences a) linkHash of
                Some es \<Rightarrow>
                  Inr (Some (segment\<lparr> Meta := (Segment.Meta segment)\<lparr> Evidences := es \<rparr> \<rparr>))
              | None \<Rightarrow> Inr (Some segment)))"

definition GetSegment :: "DummyStore \<Rightarrow> Bytes32 \<Rightarrow> error + Segment option" where
  "GetSegment a linkHash = getSegment a (String32 linkHash)"

definition GetEvidences :: "DummyStore \<Rightarrow> Bytes32 \<Rightarrow> error + Evidences option" where
  "GetEvidences a linkHash = Inr (fmlookup (evidences a) (String32 linkHash))"

subsection \<open>Filters, ordering and pagination (package store)\<close>

record Pagination =
  Offset :: int
  Limit :: int

record SegmentFilter =
  Pagination :: Pagination
  MapIDs :: "string list"
  Process :: string
  LinkHashes :: "string list"
  PrevLinkHash :: "string option"
  Tags :: "string list"

text \<open>
  Modelled from the spec: \<^verbatim>\<open>SegmentFilter.Match\<close> is not among the sources. By section
  4.2 a segment matches iff every set filter field matches, and an unset field imposes
  no constraint: an empty \<open>mapIds\<close>, \<open>tags\<close> or \<open>linkHashes\<close>, an empty \<open>process\<close> and
  an absent \<open>prevLinkHash\<close> are unset; a \<open>prevLinkHash\<close> pointing to the empty string
  matches the links without \<open>prevLinkHash\<close>, any other one the links with exactly that
  \<open>prevLinkHash\<close>; all listed tags must be among the link's tags. A nil segment matches
  no filter.
\<close>

definition MatchLink :: "SegmentFilter \<Rightarrow> Link \<Rightarrow> bool" where
  "MatchLink fltr link \<longleftrightarrow>
     (case PrevLinkHash fltr of
        None \<Rightarrow> True
      | Some p \<Rightarrow> (if p = [] then prevLinkHash (Link.Meta link) = None
                   else prevLinkHash (Link.Meta link) = Some p))
     \<and> (Process fltr = [] \<or> Process fltr = process (Link.Meta link))
     \<and> (MapIDs fltr = [] \<or> mapId (Link.Meta link) \<in> set (MapIDs fltr))
     \<and> list_all (\<lambda>tag. tag \<in> set (tags (Link.Meta link))) (Tags fltr)"

fun Match :: "SegmentFilter \<Rightarrow> Segment option \<Rightarrow> bool" where
  "Match fltr None = False"
| "Match fltr (Some segment) \<longleftrightarrow>
     (LinkHashes fltr = []
        \<or> LinkHash (Segment.Meta segment) \<in> set (LinkHashes fltr))
     \<and> MatchLink fltr (Link segment)"

text \<open>
  Modelled from the spec: the order of \<^verbatim>\<open>cs.SegmentSlice\<close> used by \<^verbatim>\<open>sort.Sort\<close> is not
  among the sources. By section 4.2 segments are sorted by priority, highest first, then
  by link hash, ascending, and a missing priority sorts last.
\<close>

definition segmentKey :: "Segment \<Rightarrow> nat \<times> int \<times> string" where
  "segmentKey segment =
     (case priority (Link.Meta (Link segment)) of
        Some p \<Rightarrow> (0, - p, LinkHash (Segment.Meta segment))
      | None \<Rightarrow> (1, 0, LinkHash (Segment.Meta segment)))"

definition sortSegments :: "Segment list \<Rightarrow> Segment list" where
  "sortSegments segments = sort_key segmentKey segments"

text \<open>
  Modelled from the spec: \<^verbatim>\<open>Pagination.PaginateSegments\<close> is not among the sources. By
  section 4.2 the result is \<open>sorted[offset : offset+limit]\<close>, clamped at the bounds.
\<close>

definition PaginateSegments :: "Pagination \<Rightarrow> Segment list \<Rightarrow> Segment list" where
  "PaginateSegments p a = take (nat (Limit p)) (drop (nat (Offset p)) a)"

subsection \<open>FindSegments\<close>

text \<open>
  A Go \<^verbatim>\<open>range\<close> over a map visits every key once, in an order the language leaves
  open. The order is a parameter: a function that enumerates a set of hashes.
\<close>

type_synonym iteration = "hashSet \<Rightarrow> string list"

definition iterates :: "iteration \<Rightarrow> bool" where
  "iterates order \<longleftrightarrow> (\<forall>S. distinct (order S) \<and> fset_of_list (order S) = S)"

text \<open>The loop of \<^verbatim>\<open>findHashesSegments\<close>, with the slice \<^verbatim>\<open>segments\<close> as accumulator.\<close>

fun collectSegments ::
  "DummyStore \<Rightarrow> SegmentFilter \<Rightarrow> string list \<Rightarrow> Segment list \<Rightarrow> error + Segment list"
where
  "collectSegments a fltr [] segments = Inr segments"
| "collectSegments a fltr (linkHash # rest) segments =
     (case getSegment a linkHash of
        Inl err \<Rightarrow> Inl err
      | Inr segment \<Rightarrow>
          (if Match fltr segment
           then collectSegments a fltr rest (segments @ (case segment of Some s \<Rightarrow> [s] | None \<Rightarrow> []))
           else collectSegments a fltr rest segments))"

definition findHashesSegments ::
  "iteration \<Rightarrow> DummyStore \<Rightarrow> hashSet \<Rightarrow> SegmentFilter \<Rightarrow> error + Segment list"
where
  "findHashesSegments order a linkHashes fltr =
     (case collectSegments a fltr (order linkHashes) [] of
        Inl err \<Rightarrow> Inl err
      | Inr segments \<Rightarrow> Inr (PaginateSegments (Pagination fltr) (sortSegments segments)))"

text \<open>The loop over \<^verbatim>\<open>filter.MapIDs\<close> that gathers the hashes of the listed maps.\<close>

fun unionMaps :: "hashSetMap \<Rightarrow> string list \<Rightarrow> hashSet \<Rightarrow> hashSet" where
  "unionMaps m [] linkHashes = linkHashes"
| "unionMaps m (mapID # rest) linkHashes =
     (case fmlookup m mapID of
        Some l \<Rightarrow> unionMaps m rest (linkHashes |\<union>| l)
      | None \<Rightarrow> unionMaps m rest linkHashes)"

definition FindSegments ::
  "iteration \<Rightarrow> DummyStore \<Rightarrow> SegmentFilter \<Rightarrow> error + Segment list"
where
  "FindSegments order a fltr =
     (let linkHashes =
            (if length (MapIDs fltr) = 0 \<or> PrevLinkHash fltr \<noteq> None
             then fmdom (links a)
             else unionMaps (maps' a) (MapIDs fltr) {||})
      in findHashesSegments order a linkHashes fltr)"

subsection \<open>Key-value store\<close>

definition hexDigit :: "nat \<Rightarrow> char" where
  "hexDigit n = ''0123456789abcdef'' ! (n mod 16)"

text \<open>\<^verbatim>\<open>fmt.Sprintf("%x", k)\<close>: two lower-case hexadecimal digits per byte.\<close>

definition createKey :: "8 word list \<Rightarrow> string" where
  "createKey k = concat (map (\<lambda>b. [hexDigit (unat b div 16), hexDigit (unat b mod 16)]) k)"

definition GetValue :: "DummyStore \<Rightarrow> 8 word list \<Rightarrow> error + 8 word list option" where
  "GetValue a key = Inr (fmlookup (values' a) (createKey key))"

definition setValue :: "DummyStore \<Rightarrow> 8 word list \<Rightarrow> 8 word list \<Rightarrow> error option \<times> DummyStore" where
  "setValue a key val = (None, a\<lparr> values' := fmupd (createKey key) val (values' a) \<rparr>)"

definition SetValue :: "DummyStore \<Rightarrow> 8 word list \<Rightarrow> 8 word list \<Rightarrow> error option \<times> DummyStore" where
  "SetValue a key val = setValue a key val"

definition deleteValue ::
  "DummyStore \<Rightarrow> 8 word list \<Rightarrow> (error + 8 word list option) \<times> DummyStore"
where
  "deleteValue a key =
     (let k = createKey key
      in case fmlookup (values' a) k of
           None \<Rightarrow> (Inr None, a)
         | Some val \<Rightarrow> (Inr (Some val), a\<lparr> values' := fmdrop k (values' a) \<rparr>))"

definition DeleteValue ::
  "DummyStore \<Rightarrow> 8 word list \<Rightarrow> (error + 8 word list option) \<times> DummyStore"
where
  "DeleteValue a key = deleteValue a key"

subsection \<open>The states of a store\<close>

text \<open>The states a store can be in: a new store, changed by its operations.\<close>

inductive reachable :: "hasher \<Rightarrow> DummyStore \<Rightarrow> bool" for Hash :: hasher where
  reach_New: "reachable Hash (New cfg)"
| reach_AddStoreEventChannel:
    "reachable Hash a \<Longrightarrow> reachable Hash (AddStoreEventChannel a c)"
| reach_CreateLink:
    "reachable Hash a \<Longrightarrow> reachable Hash (fst (snd (CreateLink Hash a link)))"
| reach_AddEvidence:
    "reachable Hash a \<Longrightarrow> reachable Hash (fst (snd (AddEvidence a linkHash evidence)))"
| reach_SetValue:
    "reachable Hash a \<Longrightarrow> reachable Hash (snd (SetValue a key val))"
| reach_DeleteValue:
    "reachable Hash a \<Longrightarrow> reachable Hash (snd (DeleteValue a key))"

subsection \<open>FindSegments as a filter over all stored segments\<close>

text \<open>
  The specification's reading of \<^verbatim>\<open>FindSegments\<close>: every stored segment is materialized
  and kept iff it satisfies the whole filter; the result is sorted and paginated.
\<close>

definition storedSegments :: "iteration \<Rightarrow> DummyStore \<Rightarrow> Segment list" where
  "storedSegments order a =
     List.map_filter (\<lambda>linkHash. case getSegment a linkHash of Inr s \<Rightarrow> s | Inl err \<Rightarrow> None)
       (order (fmdom (links a)))"

definition FindSegments_conjunction ::
  "iteration \<Rightarrow> DummyStore \<Rightarrow> SegmentFilter \<Rightarrow> Segment list"
where
  "FindSegments_conjunction order a fltr =
     PaginateSegments (Pagination fltr)
       (sortSegments (filter (\<lambda>s. Match fltr (Some s)) (storedSegments order a)))"

text \<open>
  The index \<open>maps'\<close> is complete: every stored link is listed in the map of its
  \<open>mapId\<close>. This holds in every state of a store.
\<close>

definition index_ok :: "DummyStore \<Rightarrow> bool" where
  "index_ok a \<longleftrightarrow>
     (\<forall>h l. fmlookup (links a) h = Some l \<longrightarrow>
        (\<exists>s. fmlookup (maps' a) (GetMapID l) = Some s \<and> h |\<in>| s))"

definition segmentAt :: "DummyStore \<Rightarrow> string \<Rightarrow> Segment option" where
  "segmentAt a h = (case getSegment a h of Inr s \<Rightarrow> s | Inl err \<Rightarrow> None)"

definition matching :: "DummyStore \<Rightarrow> SegmentFilter \<Rightarrow> string list \<Rightarrow> Segment list" where
  "matching a fltr hs =
     List.map_filter (\<lambda>h. if Match fltr (segmentAt a h) then segmentAt a h else None) hs"

text \<open>What arrives at one channel, out of the sends of an operation.\<close>

definition received :: "chan \<Rightarrow> (chan \<times> Event) list \<Rightarrow> Event list" where
  "received c sends = map snd (filter (\<lambda>s. fst s = c) sends)"

section \<open>Example values\<close>

definition hash0 :: hasher where
  "hash0 link = Inr (Bytes32 (mapId (Link.Meta link) @ ''-'' @ State link))"

definition link0 :: Link where
  "link0 = \<lparr> State = ''s'', Meta = \<lparr> mapId = ''m1'', process = ''p'', prevLinkHash = None,
                                     tags = [], priority = None \<rparr> \<rparr>"

definition h0 :: Bytes32 where
  "h0 = Bytes32 ''m1-s''"

definition store0 :: DummyStore where
  "store0 = AddStoreEventChannel (New \<lparr> Version = ''1'', Commit = ''c'' \<rparr>) 7"

definition evidence0 :: Evidence where
  "evidence0 = \<lparr> Backend = ''b'', Provider = ''p'', Proof = ''x'' \<rparr>"

section \<open>Properties of the in-memory store\<close>

lemma publish_map: "publish cs event = map (\<lambda>c. (c, event)) cs"
  by (induction cs) simp_all

lemma createLink_state:
  assumes "Hash link = Inr linkHash"
  shows "links (fst (snd (createLink Hash a link))) = fmupd (String32 linkHash) link (links a)"
    and "maps' (fst (snd (createLink Hash a link)))
           = fmupd (GetMapID link)
               (finsert (String32 linkHash)
                  (case fmlookup (maps' a) (GetMapID link) of None \<Rightarrow> {||} | Some s \<Rightarrow> s))
               (maps' a)"
  using assms
  by (auto simp: createLink_def Let_def fmlookup_dom_iff split: option.splits)

lemma createLink_failed: "Hash link = Inl err \<Longrightarrow> fst (snd (createLink Hash a link)) = a"
  by (simp add: createLink_def)

text \<open>
  C1. When the hash of the link is computed, \<^verbatim>\<open>CreateLink\<close> stores the link under its
  hash, inserts the hash into the map of the link's \<open>mapId\<close> (starting from the empty
  set when there is no such map), sends one \<^verbatim>\<open>SavedLinks\<close> event with the link to every
  channel and returns the hash; nothing else of the store changes. In particular a link
  whose \<open>mapId\<close> was unknown creates that map, which then holds exactly this hash.
\<close>

theorem CreateLink_stores_link:
  assumes "Hash link = Inr linkHash"
  shows "CreateLink Hash a link =
           (Inr linkHash,
            a\<lparr> links := fmupd (String32 linkHash) link (links a),
               maps' := fmupd (GetMapID link)
                          (finsert (String32 linkHash)
                             (case fmlookup (maps' a) (GetMapID link) of
                                None \<Rightarrow> {||} | Some s \<Rightarrow> s))
                          (maps' a) \<rparr>,
            map (\<lambda>c. (c, SavedLinks [link])) (eventChans a))
         \<and> (GetMapID link |\<notin>| fmdom (maps' a) \<longrightarrow>
              fmlookup (maps' (fst (snd (CreateLink Hash a link)))) (GetMapID link)
                = Some {|String32 linkHash|})"
  using assms
  by (auto simp: CreateLink_def createLink_def Let_def publish_map NewSavedLinks_def
      fmlookup_dom_iff split: option.splits)

theorem CreateLink_stores_link_witness:
  "hash0 link0 = Inr h0
   \<and> fst (CreateLink hash0 store0 link0) = Inr h0
   \<and> fmlookup (links (fst (snd (CreateLink hash0 store0 link0)))) ''m1-s'' = Some link0
   \<and> fmlookup (maps' (fst (snd (CreateLink hash0 store0 link0)))) ''m1'' = Some {|''m1-s''|}
   \<and> snd (snd (CreateLink hash0 store0 link0)) = [(7, SavedLinks [link0])]"
proof -
  have h: "hash0 link0 = Inr h0"
    by (simp add: hash0_def link0_def h0_def)
  have m: "GetMapID link0 = ''m1''" "String32 h0 = ''m1-s''"
    by (simp_all add: GetMapID_def link0_def h0_def)
  have e: "maps' store0 = fmempty" "eventChans store0 = [7]"
    by (simp_all add: store0_def New_def AddStoreEventChannel_def)
  show ?thesis
    using CreateLink_stores_link [of hash0 link0 h0 store0] h by (simp add: m e)
qed

text \<open>
  C7. A second \<^verbatim>\<open>CreateLink\<close> with the same link, on the state left by the first one,
  returns the same result and leaves the state of the store (links, maps, evidences,
  values) as the first call left it; the event is sent again.
\<close>

theorem CreateLink_idempotent:
  "fst (CreateLink Hash (fst (snd (CreateLink Hash a link))) link) = fst (CreateLink Hash a link)
   \<and> fst (snd (CreateLink Hash (fst (snd (CreateLink Hash a link))) link))
       = fst (snd (CreateLink Hash a link))
   \<and> snd (snd (CreateLink Hash (fst (snd (CreateLink Hash a link))) link))
       = snd (snd (CreateLink Hash a link))"
  by (cases "Hash link")
     (auto simp: CreateLink_def createLink_def Let_def publish_map NewSavedLinks_def
      fmlookup_dom_iff split: option.splits)

theorem CreateLink_idempotent_witness:
  "fst (CreateLink hash0 (fst (snd (CreateLink hash0 store0 link0))) link0) = Inr h0
   \<and> fst (snd (CreateLink hash0 (fst (snd (CreateLink hash0 store0 link0))) link0))
       = fst (snd (CreateLink hash0 store0 link0))
   \<and> fmlookup (links (fst (snd (CreateLink hash0 store0 link0)))) ''m1-s'' = Some link0"
proof -
  have r: "CreateLink hash0 store0 link0 =
             (Inr h0,
              store0\<lparr> links := fmupd ''m1-s'' link0 fmempty,
                      maps' := fmupd ''m1'' {|''m1-s''|} fmempty \<rparr>,
              [(7, SavedLinks [link0])])"
    by (simp add: CreateLink_def createLink_def Let_def hash0_def link0_def h0_def store0_def
        New_def AddStoreEventChannel_def GetMapID_def NewSavedLinks_def)
  show ?thesis
    using CreateLink_idempotent [of hash0 store0 link0] by (simp add: r)
qed

end
